theory Spec2Isabelle
  imports Main "HOL-Library.Word"
begin

section \<open>Python values, exceptions and objects\<close>

text \<open>
  The three classes of \<^verbatim>\<open>base_model\<close> are written in Python, whose parameter
  annotations (\<^verbatim>\<open>str\<close>, \<^verbatim>\<open>list[float]\<close>, \<^verbatim>\<open>int\<close>, \<^verbatim>\<open>any\<close>) are
  not checked when a method is called. Every argument is therefore a value of one
  dynamic type. A Python float is an IEEE-754 double; the code never computes with one,
  so it is kept as its 64-bit pattern.
\<close>

type_synonym pyfloat = "64 word"

datatype pyval =
    PyNone
  | PyBool bool
  | PyInt int
  | PyFloat pyfloat
  | PyStr string
  | PyList "pyval list"
  | PyTuple "pyval list"

text \<open>
  An exception is an instance of an exception class carrying a message. The classes
  listed are built-in ones: the one the source raises, and those a body that read the
  stored path, checked its type or opened the file would raise.
\<close>

datatype exn_class =
    NotImplementedError
  | TypeError
  | ValueError
  | AttributeError
  | FileNotFoundError

datatype exn = Exn exn_class string

fun exn_class_of :: "exn \<Rightarrow> exn_class" where
  "exn_class_of (Exn c m) = c"

text \<open>
  A call either raises (\<open>Inl\<close>) or returns a value (\<open>Inr\<close>). An instance is its
  attribute dictionary (\<^verbatim>\<open>__dict__\<close>); a method takes the instance and gives back
  the outcome together with the instance as the call leaves it.
\<close>

type_synonym 'a outcome = "exn + 'a"

type_synonym obj = "string \<rightharpoonup> pyval"

definition raised :: "'a outcome \<Rightarrow> exn_class option" where
  "raised r = (case r of Inl e \<Rightarrow> Some (exn_class_of e) | Inr v \<Rightarrow> None)"

text \<open>
  Instantiating a class \<^verbatim>\<open>C(args)\<close> allocates an instance with an empty attribute
  dictionary, runs \<^verbatim>\<open>__init__\<close> on it and yields the instance, unless
  \<^verbatim>\<open>__init__\<close> raises.
\<close>

definition instantiate :: "(obj \<Rightarrow> pyval outcome \<times> obj) \<Rightarrow> obj outcome" where
  "instantiate init =
     (case init Map.empty of
        (Inl e, self) \<Rightarrow> Inl e
      | (Inr v, self) \<Rightarrow> Inr self)"

section \<open>\<^verbatim>\<open>base_model.py\<close>: class BaseModel\<close>

text \<open>
  \<^verbatim>\<open>def __init__(self, path_to_model: str) -> None:
      self.path: str = path_to_model\<close>
\<close>

definition BaseModel_init :: "obj \<Rightarrow> pyval \<Rightarrow> pyval outcome \<times> obj" where
  "BaseModel_init self path_to_model = (Inr PyNone, self(''path'' \<mapsto> path_to_model))"

definition BaseModel :: "pyval \<Rightarrow> obj outcome" where
  "BaseModel path_to_model = instantiate (\<lambda>self. BaseModel_init self path_to_model)"

text \<open>
  \<^verbatim>\<open>def predict(self, wave: list[float], sample_rate: int = 16000) -> list[tuple[str, float]]:
      raise NotImplementedError("Subclasses must implement the `predict` method.")\<close>

  \<open>BaseModel_predict\<close> is the method with both parameters bound.
  \<open>BaseModel_predict_sample_rate\<close> is the value the signature binds to the
  parameter \<^verbatim>\<open>sample_rate\<close>: the argument when one is passed, the default when
  it is left out (\<open>None\<close>). \<open>BaseModel_predict_call\<close> is a call: it binds
  \<^verbatim>\<open>sample_rate\<close> and runs the body.
\<close>

definition BaseModel_predict :: "obj \<Rightarrow> pyval \<Rightarrow> pyval \<Rightarrow> pyval outcome \<times> obj" where
  "BaseModel_predict self wave sample_rate =
     (Inl (Exn NotImplementedError ''Subclasses must implement the `predict` method.''), self)"

definition BaseModel_predict_sample_rate :: "pyval option \<Rightarrow> pyval" where
  "BaseModel_predict_sample_rate sample_rate_arg =
     (case sample_rate_arg of None \<Rightarrow> PyInt 16000 | Some sample_rate \<Rightarrow> sample_rate)"

definition BaseModel_predict_call :: "obj \<Rightarrow> pyval \<Rightarrow> pyval option \<Rightarrow> pyval outcome \<times> obj" where
  "BaseModel_predict_call self wave sample_rate_arg =
     BaseModel_predict self wave (BaseModel_predict_sample_rate sample_rate_arg)"

section \<open>\<^verbatim>\<open>base_preprocessor.py\<close>: class BasePreprocess\<close>

text \<open>
  \<^verbatim>\<open>def __init__(self) -> None:
      pass

  def process(self, wave: list[float]) -> None:
      raise NotImplementedError("Subclasses must implement the `process` method.")\<close>
\<close>

definition BasePreprocess_init :: "obj \<Rightarrow> pyval outcome \<times> obj" where
  "BasePreprocess_init self = (Inr PyNone, self)"

definition BasePreprocess :: "obj outcome" where
  "BasePreprocess = instantiate BasePreprocess_init"

definition BasePreprocess_process :: "obj \<Rightarrow> pyval \<Rightarrow> pyval outcome \<times> obj" where
  "BasePreprocess_process self wave =
     (Inl (Exn NotImplementedError ''Subclasses must implement the `process` method.''), self)"

section \<open>\<^verbatim>\<open>base_postprocessor.py\<close>: class BasePostprocess\<close>

text \<open>
  \<^verbatim>\<open>def __init__(self) -> None:
      pass

  def process(self, data: any) -> any:
      raise NotImplementedError("Subclasses must implement the `process` method.")\<close>
\<close>

definition BasePostprocess_init :: "obj \<Rightarrow> pyval outcome \<times> obj" where
  "BasePostprocess_init self = (Inr PyNone, self)"

definition BasePostprocess :: "obj outcome" where
  "BasePostprocess = instantiate BasePostprocess_init"

definition BasePostprocess_process :: "obj \<Rightarrow> pyval \<Rightarrow> pyval outcome \<times> obj" where
  "BasePostprocess_process self data =
     (Inl (Exn NotImplementedError ''Subclasses must implement the `process` method.''), self)"

section \<open>Sequences of calls on a model\<close>

text \<open>
  The only operation \<^verbatim>\<open>BaseModel\<close> declares besides its constructor is
  \<^verbatim>\<open>predict\<close>. A client holding an instance can call it any number of times,
  catching the exception each time; \<open>BaseModel_calls\<close> gives the instance after such a
  sequence of calls, each given by its \<^verbatim>\<open>wave\<close> and optional \<^verbatim>\<open>sample_rate\<close>.
\<close>

fun BaseModel_calls :: "obj \<Rightarrow> (pyval \<times> pyval option) list \<Rightarrow> obj" where
  "BaseModel_calls self [] = self"
| "BaseModel_calls self ((wave, sample_rate_arg) # cs) =
     BaseModel_calls (snd (BaseModel_predict_call self wave sample_rate_arg)) cs"

section \<open>Basic facts\<close>

lemma BaseModel_predict_outcome:
  "fst (BaseModel_predict self wave sample_rate) =
     Inl (Exn NotImplementedError ''Subclasses must implement the `predict` method.'')"
  by (simp add: BaseModel_predict_def)

lemma BaseModel_predict_self: "snd (BaseModel_predict self wave sample_rate) = self"
  by (simp add: BaseModel_predict_def)

lemma BaseModel_eq: "BaseModel v = Inr [''path'' \<mapsto> v]"
  by (simp add: BaseModel_def instantiate_def BaseModel_init_def)

lemma BasePreprocess_process_outcome:
  "fst (BasePreprocess_process self wave) =
     Inl (Exn NotImplementedError ''Subclasses must implement the `process` method.'')"
  by (simp add: BasePreprocess_process_def)

lemma BasePreprocess_process_self: "snd (BasePreprocess_process self wave) = self"
  by (simp add: BasePreprocess_process_def)

lemma BasePostprocess_process_outcome:
  "fst (BasePostprocess_process self data) =
     Inl (Exn NotImplementedError ''Subclasses must implement the `process` method.'')"
  by (simp add: BasePostprocess_process_def)

lemma BasePostprocess_process_self: "snd (BasePostprocess_process self data) = self"
  by (simp add: BasePostprocess_process_def)

lemma BaseModel_predict_call_outcome:
  "fst (BaseModel_predict_call self wave sample_rate_arg) =
     Inl (Exn NotImplementedError ''Subclasses must implement the `predict` method.'')"
  by (simp add: BaseModel_predict_call_def BaseModel_predict_outcome)

lemma BaseModel_predict_call_self:
  "snd (BaseModel_predict_call self wave sample_rate_arg) = self"
  by (simp add: BaseModel_predict_call_def BaseModel_predict_self)

lemma BaseModel_calls_self: "BaseModel_calls self cs = self"
proof (induction cs arbitrary: self)
  case Nil
  show ?case by simp
next
  case (Cons c cs)
  obtain wave sample_rate_arg where c: "c = (wave, sample_rate_arg)"
    by (cases c)
  show ?case
    by (simp add: c BaseModel_predict_call_self Cons.IH)
qed

lemma BasePreprocess_eq: "BasePreprocess = Inr Map.empty"
  by (simp add: BasePreprocess_def instantiate_def BasePreprocess_init_def)

lemma BasePostprocess_eq: "BasePostprocess = Inr Map.empty"
  by (simp add: BasePostprocess_def instantiate_def BasePostprocess_init_def)

lemma raised_Inl: "raised (Inl (Exn c m)) = Some c"
  by (simp add: raised_def)

section \<open>The base operations are unimplemented\<close>

text \<open>
  C1. For every wave that is a list of floats and every sample rate (given or left
  out), \<^verbatim>\<open>predict\<close> on an instance of \<^verbatim>\<open>BaseModel\<close> raises
  \<^verbatim>\<open>NotImplementedError\<close>, and there is no value that it returns.
\<close>

theorem C1_predict_not_implemented:
  "fst (BaseModel_predict_call self (PyList (map PyFloat ws)) sample_rate_arg) =
     Inl (Exn NotImplementedError ''Subclasses must implement the `predict` method.'')
   \<and> raised (fst (BaseModel_predict_call self (PyList (map PyFloat ws)) sample_rate_arg)) =
     Some NotImplementedError
   \<and> (\<nexists>v. fst (BaseModel_predict_call self (PyList (map PyFloat ws)) sample_rate_arg) = Inr v)"
  by (simp add: BaseModel_predict_call_def BaseModel_predict_outcome raised_def)

text \<open>
  C2. For every wave that is a list of floats, \<^verbatim>\<open>process\<close> on an instance of
  \<^verbatim>\<open>BasePreprocess\<close> raises \<^verbatim>\<open>NotImplementedError\<close>, and there is no value
  that it returns.
\<close>

theorem C2_preprocess_not_implemented:
  "fst (BasePreprocess_process self (PyList (map PyFloat ws))) =
     Inl (Exn NotImplementedError ''Subclasses must implement the `process` method.'')
   \<and> raised (fst (BasePreprocess_process self (PyList (map PyFloat ws)))) =
     Some NotImplementedError
   \<and> (\<nexists>v. fst (BasePreprocess_process self (PyList (map PyFloat ws))) = Inr v)"
  by (simp add: BasePreprocess_process_outcome raised_Inl)

text \<open>
  C3. For every value \<^verbatim>\<open>data\<close>, of whatever type, \<^verbatim>\<open>process\<close> on an instance
  of \<^verbatim>\<open>BasePostprocess\<close> raises \<^verbatim>\<open>NotImplementedError\<close>, and there is no
  value that it returns.
\<close>

theorem C3_postprocess_not_implemented:
  "fst (BasePostprocess_process self data) =
     Inl (Exn NotImplementedError ''Subclasses must implement the `process` method.'')
   \<and> raised (fst (BasePostprocess_process self data)) = Some NotImplementedError
   \<and> (\<nexists>v. fst (BasePostprocess_process self data) = Inr v)"
  by (simp add: BasePostprocess_process_outcome raised_Inl)

section \<open>The stored path\<close>

text \<open>
  C4. For every string \<open>p\<close>, \<^verbatim>\<open>BaseModel(p)\<close> succeeds and yields an instance
  whose attribute \<^verbatim>\<open>path\<close> is exactly \<open>p\<close> and which has no other attribute.
  The class never reads the attribute: whatever value it is replaced by, the outcome of
  \<^verbatim>\<open>predict\<close> is the same. It never validates it: construction succeeds for
  every \<open>p\<close>.
\<close>

theorem C4_constructor_stores_path:
  "\<exists>self. BaseModel (PyStr p) = Inr self
      \<and> self ''path'' = Some (PyStr p)
      \<and> dom self = {''path''}
      \<and> (\<forall>v wave sample_rate_arg.
            fst (BaseModel_predict_call (self(''path'' \<mapsto> v)) wave sample_rate_arg) =
            fst (BaseModel_predict_call self wave sample_rate_arg))"
  by (simp add: BaseModel_eq BaseModel_predict_call_outcome)

text \<open>
  C5. On an instance constructed with the value \<open>p\<close>, a call of \<^verbatim>\<open>predict\<close>
  leaves the instance as it was, and so does every sequence of such calls: afterwards
  the attribute \<^verbatim>\<open>path\<close> is still \<open>p\<close>.
\<close>

theorem C5_path_preserved:
  assumes "BaseModel p = Inr self"
  shows "snd (BaseModel_predict_call self wave sample_rate_arg) = self
       \<and> BaseModel_calls self cs = self
       \<and> BaseModel_calls self cs ''path'' = Some p"
proof -
  from assms have "self = [''path'' \<mapsto> p]"
    by (simp add: BaseModel_eq)
  then have "self ''path'' = Some p"
    by simp
  then show ?thesis
    by (simp add: BaseModel_predict_call_self BaseModel_calls_self)
qed

text \<open>
  An instance constructed with the path \<^verbatim>\<open>model.onnx\<close>, on which
  \<^verbatim>\<open>predict\<close> is called twice.
\<close>

theorem C5_path_preserved_witness:
  "BaseModel (PyStr ''model.onnx'') = Inr [''path'' \<mapsto> PyStr ''model.onnx'']
   \<and> snd (BaseModel_predict_call [''path'' \<mapsto> PyStr ''model.onnx'']
            (PyList [PyFloat 0, PyFloat 1]) None) = [''path'' \<mapsto> PyStr ''model.onnx'']
   \<and> BaseModel_calls [''path'' \<mapsto> PyStr ''model.onnx'']
        [(PyList [PyFloat 0, PyFloat 1], None), (PyList [], Some (PyInt 8000))] ''path'' =
      Some (PyStr ''model.onnx'')"
proof -
  have h: "BaseModel (PyStr ''model.onnx'') = Inr [''path'' \<mapsto> PyStr ''model.onnx'']"
    by (simp add: BaseModel_def instantiate_def BaseModel_init_def)
  show ?thesis
    using h C5_path_preserved [OF h, of "PyList [PyFloat 0, PyFloat 1]" None
        "[(PyList [PyFloat 0, PyFloat 1], None), (PyList [], Some (PyInt 8000))]"]
    by (simp del: BaseModel_calls.simps)
qed

text \<open>
  C6. For two instances constructed with any two path strings, and any two calls of
  \<^verbatim>\<open>predict\<close> with any waves and any given or omitted sample rates, the two
  outcomes are the same: the \<^verbatim>\<open>NotImplementedError\<close>. The outcome depends
  neither on the stored path nor on the arguments.
\<close>

theorem C6_predict_noninterference:
  assumes "BaseModel (PyStr path1) = Inr self1" and "BaseModel (PyStr path2) = Inr self2"
  shows "fst (BaseModel_predict_call self1 wave1 sample_rate_arg1) =
         fst (BaseModel_predict_call self2 wave2 sample_rate_arg2)
       \<and> raised (fst (BaseModel_predict_call self1 wave1 sample_rate_arg1)) =
         Some NotImplementedError"
  by (simp add: BaseModel_predict_call_outcome raised_Inl)

text \<open>
  Two instances with different paths, called with different waves, one call without a
  sample rate and one with 44100.
\<close>

theorem C6_predict_noninterference_witness:
  "BaseModel (PyStr ''a.onnx'') = Inr [''path'' \<mapsto> PyStr ''a.onnx'']
   \<and> BaseModel (PyStr ''/models/b.pt'') = Inr [''path'' \<mapsto> PyStr ''/models/b.pt'']
   \<and> fst (BaseModel_predict_call [''path'' \<mapsto> PyStr ''a.onnx''] (PyList [PyFloat 7]) None) =
      fst (BaseModel_predict_call [''path'' \<mapsto> PyStr ''/models/b.pt''] (PyList [])
            (Some (PyInt 44100)))"
proof -
  have h1: "BaseModel (PyStr ''a.onnx'') = Inr [''path'' \<mapsto> PyStr ''a.onnx'']"
    by (simp add: BaseModel_def instantiate_def BaseModel_init_def)
  have h2: "BaseModel (PyStr ''/models/b.pt'') = Inr [''path'' \<mapsto> PyStr ''/models/b.pt'']"
    by (simp add: BaseModel_def instantiate_def BaseModel_init_def)
  show ?thesis
    using h1 h2 C6_predict_noninterference [OF h1 h2, of "PyList [PyFloat 7]" None
        "PyList []" "Some (PyInt 44100)"]
    by simp
qed

section \<open>The preprocessor and the postprocessor hold no state\<close>

text \<open>
  C7. The constructors of \<^verbatim>\<open>BasePreprocess\<close> and \<^verbatim>\<open>BasePostprocess\<close>
  take no argument and yield an instance with no attribute, so any two instances of one
  class have the same (empty) state. \<^verbatim>\<open>process\<close> reads no instance state (its
  outcome is the same on any two instances) and writes none (the instance is left as
  it was). What is observed of an instance is its attributes and the outcomes of its
  declared operation.
\<close>

theorem C7_processors_stateless:
  "BasePreprocess = Inr Map.empty
   \<and> BasePostprocess = Inr Map.empty
   \<and> fst (BasePreprocess_process self1 wave) = fst (BasePreprocess_process self2 wave)
   \<and> snd (BasePreprocess_process self1 wave) = self1
   \<and> fst (BasePostprocess_process self1 data) = fst (BasePostprocess_process self2 data)
   \<and> snd (BasePostprocess_process self1 data) = self1"
  by (simp add: BasePreprocess_eq BasePostprocess_eq
      BasePreprocess_process_outcome BasePreprocess_process_self
      BasePostprocess_process_outcome BasePostprocess_process_self)

section \<open>Errors and construction\<close>

text \<open>
  C8. For every instance and every input, each of the three base operations raises an
  exception of class \<^verbatim>\<open>NotImplementedError\<close>; the set of exception classes
  that any call of any of the three can raise is that single class.
\<close>

theorem C8_single_error_kind:
  "raised (fst (BaseModel_predict_call self wave sample_rate_arg)) = Some NotImplementedError
   \<and> raised (fst (BasePreprocess_process self wave)) = Some NotImplementedError
   \<and> raised (fst (BasePostprocess_process self data)) = Some NotImplementedError
   \<and> {c. \<exists>self wave sample_rate_arg.
           raised (fst (BaseModel_predict_call self wave sample_rate_arg)) = Some c}
     \<union> {c. \<exists>self wave. raised (fst (BasePreprocess_process self wave)) = Some c}
     \<union> {c. \<exists>self data. raised (fst (BasePostprocess_process self data)) = Some c}
     = {NotImplementedError}"
  by (auto simp add: BaseModel_predict_call_outcome BasePreprocess_process_outcome
      BasePostprocess_process_outcome raised_Inl)

text \<open>
  C9. Construction never fails: \<^verbatim>\<open>BaseModel(v)\<close> yields an instance for every
  value \<open>v\<close>, a string or not, and the constructors of \<^verbatim>\<open>BasePreprocess\<close>
  and \<^verbatim>\<open>BasePostprocess\<close> yield an instance; none of them raises.
\<close>

theorem C9_construction_succeeds:
  "(\<exists>self. BaseModel v = Inr self)
   \<and> (\<exists>self. BasePreprocess = Inr self)
   \<and> (\<exists>self. BasePostprocess = Inr self)
   \<and> raised (BaseModel v) = None \<and> raised BasePreprocess = None \<and> raised BasePostprocess = None"
  by (simp add: BaseModel_eq BasePreprocess_eq BasePostprocess_eq raised_def)

text \<open>
  C10. The signature binds an omitted \<^verbatim>\<open>sample_rate\<close> to 16000, and a call runs
  the body on the bound value. Hence the value bound when the argument is left out is
  the value bound when \<open>v\<close> is passed exactly when \<open>v\<close> is 16000, and the call
  that leaves \<^verbatim>\<open>sample_rate\<close> out has the same outcome, and leaves the same
  instance, as the call that passes 16000.
\<close>

theorem C10_default_sample_rate:
  "BaseModel_predict_sample_rate None = PyInt 16000
   \<and> (BaseModel_predict_sample_rate None = BaseModel_predict_sample_rate (Some v)) =
     (v = PyInt 16000)
   \<and> BaseModel_predict_call self wave sample_rate_arg =
     BaseModel_predict self wave (BaseModel_predict_sample_rate sample_rate_arg)
   \<and> BaseModel_predict_call self wave None =
     BaseModel_predict_call self wave (Some (PyInt 16000))"
proof -
  have default: "BaseModel_predict_sample_rate None = PyInt 16000"
    by (simp add: BaseModel_predict_sample_rate_def)
  have passed: "BaseModel_predict_sample_rate (Some x) = x" for x
    by (simp add: BaseModel_predict_sample_rate_def)
  have pins: "(BaseModel_predict_sample_rate None = BaseModel_predict_sample_rate (Some v)) =
      (v = PyInt 16000)"
    unfolding default passed by (rule eq_commute)
  have same: "BaseModel_predict_call self wave None =
      BaseModel_predict_call self wave (Some (PyInt 16000))"
    unfolding BaseModel_predict_call_def default passed by (rule refl)
  show ?thesis
    using default pins same by (simp add: BaseModel_predict_call_def)
qed

text \<open>
  Leaving the sample rate out binds the value that passing 16000 binds, and not the
  value that passing 8000 binds.
\<close>

theorem C10_default_sample_rate_witness:
  "BaseModel_predict_sample_rate None = BaseModel_predict_sample_rate (Some (PyInt 16000))
   \<and> BaseModel_predict_sample_rate None \<noteq> BaseModel_predict_sample_rate (Some (PyInt 8000))"
proof -
  have same: "(BaseModel_predict_sample_rate None =
      BaseModel_predict_sample_rate (Some (PyInt 16000))) = (PyInt 16000 = PyInt 16000)"
    using C10_default_sample_rate [where v = "PyInt 16000" and self = Map.empty
        and wave = "PyList []" and sample_rate_arg = None]
    by blast
  have other: "(BaseModel_predict_sample_rate None =
      BaseModel_predict_sample_rate (Some (PyInt 8000))) = (PyInt 8000 = PyInt 16000)"
    using C10_default_sample_rate [where v = "PyInt 8000" and self = Map.empty
        and wave = "PyList []" and sample_rate_arg = None]
    by blast
  from same have "BaseModel_predict_sample_rate None =
      BaseModel_predict_sample_rate (Some (PyInt 16000))"
    by simp
  moreover from other have "BaseModel_predict_sample_rate None \<noteq>
      BaseModel_predict_sample_rate (Some (PyInt 8000))"
    by simp
  ultimately show ?thesis
    by (rule conjI)
qed

end
